theory Spec2Isabelle
  imports Complex_Main "HOL-Library.Multiset"
begin

section \<open>Python strings\<close>

text \<open>
  A Python \<open>str\<close> is modelled as a \<open>string\<close>; a \<open>char\<close> stands for the code point
  of the same number (0 to 255). Code points above 255 are neither in \<open>[A-Za-z0-9]\<close> nor
  equal to \<open>_\<close> or \<open>.\<close>, so the functions below treat them like the characters
  \<open>0xA0\<close> (white space) or \<open>0xE9\<close> (not white space), which the model has.
\<close>

definition is_space :: "char \<Rightarrow> bool" where
  \<comment> \<open>\<open>str.isspace\<close> on one character: the characters \<open>str.strip()\<close> removes\<close>
  "is_space c = (let n = (of_char c :: nat) in
     (9 \<le> n \<and> n \<le> 13) \<or> (28 \<le> n \<and> n \<le> 32) \<or> n = 133 \<or> n = 160)"

definition is_alnum :: "char \<Rightarrow> bool" where
  \<comment> \<open>the character class \<open>[A-Za-z0-9]\<close>\<close>
  "is_alnum c = (let n = (of_char c :: nat) in
     (48 \<le> n \<and> n \<le> 57) \<or> (65 \<le> n \<and> n \<le> 90) \<or> (97 \<le> n \<and> n \<le> 122))"

definition lower_char :: "char \<Rightarrow> char" where
  "lower_char c = (let n = (of_char c :: nat) in
     if (65 \<le> n \<and> n \<le> 90) \<or> (192 \<le> n \<and> n \<le> 222 \<and> n \<noteq> 215) then char_of (n + 32) else c)"

definition lower :: "string \<Rightarrow> string" where
  \<comment> \<open>\<open>str.lower()\<close>\<close>
  "lower s = map lower_char s"

definition strip_pred :: "(char \<Rightarrow> bool) \<Rightarrow> string \<Rightarrow> string" where
  \<comment> \<open>removes the leading and the trailing characters that satisfy \<open>P\<close>\<close>
  "strip_pred P s = rev (dropWhile P (rev (dropWhile P s)))"

definition strip :: "string \<Rightarrow> string" where
  \<comment> \<open>\<open>s.strip()\<close>\<close>
  "strip s = strip_pred is_space s"

definition strip_chars :: "string \<Rightarrow> string \<Rightarrow> string" where
  \<comment> \<open>\<open>s.strip(chars)\<close>\<close>
  "strip_chars chars s = strip_pred (\<lambda>c. c \<in> set chars) s"

text \<open>
  \<open>re.sub(r"[class]+", r, s)\<close>: scanning from the left, every maximal run of characters
  of the class \<open>P\<close> is replaced by \<open>r\<close>; the other characters are kept.
\<close>

function re_sub_plus :: "(char \<Rightarrow> bool) \<Rightarrow> string \<Rightarrow> string \<Rightarrow> string" where
  "re_sub_plus P r [] = []"
| "re_sub_plus P r (c # cs) =
     (if P c then r @ re_sub_plus P r (dropWhile P cs) else c # re_sub_plus P r cs)"
  by pat_completeness auto
termination
  by (relation "measure (\<lambda>(P, r, s). length s)") (auto simp: length_dropWhile_le less_Suc_eq_le)

fun rfind :: "char \<Rightarrow> string \<Rightarrow> nat option" where
  \<comment> \<open>\<open>s.rfind(c)\<close>, with \<open>None\<close> for Python's \<open>-1\<close>\<close>
  "rfind c [] = None"
| "rfind c (x # xs) =
     (case rfind c xs of Some i \<Rightarrow> Some (Suc i) | None \<Rightarrow> if x = c then Some 0 else None)"

definition digit :: "nat \<Rightarrow> char" where
  "digit n = char_of (48 + n)"

fun decimal :: "nat \<Rightarrow> string" where
  "decimal n = (if n < 10 then [digit n] else decimal (n div 10) @ [digit (n mod 10)])"

declare decimal.simps [simp del]

definition zero_padded :: "nat \<Rightarrow> int \<Rightarrow> string" where
  \<comment> \<open>the format \<open>%0wd\<close> of a number that is not negative\<close>
  "zero_padded w n = (let s = decimal (nat n) in replicate (w - length s) CHR ''0'' @ s)"

section \<open>utils.py\<close>

definition is_blank :: "string option \<Rightarrow> bool" where
  "is_blank s = (case s of None \<Rightarrow> True | Some t \<Rightarrow> strip t = [])"

definition truthy :: "string option \<Rightarrow> bool" where
  \<comment> \<open>the truth value of an optional string: neither \<open>None\<close> nor empty\<close>
  "truthy s = (case s of None \<Rightarrow> False | Some t \<Rightarrow> t \<noteq> [])"

section \<open>Paths\<close>

text \<open>
  A \<open>pathlib.Path\<close> is the list of its segments, the anchor first. \<open>path_div p s\<close> is
  \<open>p / s\<close> for a relative segment \<open>s\<close>, which is kept as given.
\<close>

type_synonym path = "string list"

definition path_div :: "path \<Rightarrow> string \<Rightarrow> path" where
  "path_div p s = p @ [s]"

definition parent :: "path \<Rightarrow> path" where
  "parent p = butlast p"

definition name :: "path \<Rightarrow> string" where
  "name p = (if p = [] then [] else last p)"

definition suffix :: "path \<Rightarrow> string" where
  \<comment> \<open>\<open>path.suffix\<close>: from the last dot of the name, unless the dot is first or last\<close>
  "suffix p =
     (case rfind CHR ''.'' (name p) of
        None \<Rightarrow> []
      | Some i \<Rightarrow> if 0 < i \<and> i + 1 < length (name p) then drop i (name p) else [])"

section \<open>Data frames\<close>

text \<open>
  A column has one dtype: timestamps (nanoseconds since the epoch, with the time zone of
  the column, \<open>None\<close> when naive) or numbers. A missing cell (NaT or NaN) is \<open>None\<close>.
  A frame has its number of rows and its columns by label, in order.
\<close>

datatype column = TimeCol "string option" "int option list" | NumCol "real option list"

record dataframe =
  nrows :: nat
  columns :: "(string \<times> column) list"

definition getitem :: "dataframe \<Rightarrow> string \<Rightarrow> column option" where
  \<comment> \<open>\<open>df[c]\<close>; \<open>None\<close> where Python raises KeyError\<close>
  "getitem df c = map_of (columns df) c"

definition df_empty :: "dataframe \<Rightarrow> bool" where
  \<comment> \<open>\<open>df.empty\<close>: an axis of length 0\<close>
  "df_empty df = (nrows df = 0 \<or> columns df = [])"

fun isna :: "column \<Rightarrow> bool list" where
  "isna (TimeCol tz xs) = map (\<lambda>x. x = None) xs"
| "isna (NumCol xs) = map (\<lambda>x. x = None) xs"

definition py_any :: "bool list \<Rightarrow> bool" where
  "py_any bs = (True \<in> set bs)"

definition py_all :: "bool list \<Rightarrow> bool" where
  "py_all bs = (False \<notin> set bs)"

fun duplicated_from :: "'a list \<Rightarrow> 'a list \<Rightarrow> bool list" where
  \<comment> \<open>marks every value that has occurred before (\<open>keep='first'\<close>)\<close>
  "duplicated_from seen [] = []"
| "duplicated_from seen (x # xs) = (x \<in> set seen) # duplicated_from (x # seen) xs"

fun duplicated :: "column \<Rightarrow> bool list" where
  "duplicated (TimeCol tz xs) = duplicated_from [] xs"
| "duplicated (NumCol xs) = duplicated_from [] xs"

definition bool_sum :: "bool list \<Rightarrow> nat" where
  \<comment> \<open>\<open>.sum()\<close> of a boolean series\<close>
  "bool_sum bs = length (filter (\<lambda>b. b) bs)"

fun monotonic_increasing :: "('a :: linorder) option list \<Rightarrow> bool" where
  \<comment> \<open>each value is at least its predecessor; a missing value makes it false\<close>
  "monotonic_increasing [] = True"
| "monotonic_increasing [x] = (x \<noteq> None)"
| "monotonic_increasing (x # y # r) =
     (case (x, y) of
        (Some a, Some b) \<Rightarrow> a \<le> b \<and> monotonic_increasing (y # r)
      | _ \<Rightarrow> False)"

fun is_monotonic_increasing :: "column \<Rightarrow> bool" where
  "is_monotonic_increasing (TimeCol tz xs) = monotonic_increasing xs"
| "is_monotonic_increasing (NumCol xs) = monotonic_increasing xs"

section \<open>Exceptions and effects\<close>

datatype message =
    TickerVacio
  | YahooSinDatos string string
  | FaltanColumnas "string list"
  | DataFrameVacio
  | NaNsEnTime
  | TimestampsDuplicados nat
  | TimeNoOrdenado
  | ColumnaTodaNaN string
  | ExtensionNoSoportada string

datatype exn =
    ValueError message
  | RuntimeError message
  | OverflowError
  | KeyError string
  | IndexError

record request =
  req_tickers :: string
  req_interval :: string
  req_start :: "string option"
  req_end :: "string option"
  req_period :: "string option"
  req_auto_adjust :: bool
  req_prepost :: bool
  req_timeout :: int

text \<open>What a run does to the world, in order: requests to the provider, directories made, files written.\<close>

datatype event =
    Download request
  | Mkdir path
  | ToParquet path dataframe
  | ToCsv path dataframe

fun is_write :: "event \<Rightarrow> bool" where
  "is_write (ToParquet p df) = True"
| "is_write (ToCsv p df) = True"
| "is_write e = False"

section \<open>io.py\<close>

definition FIXED_DATA_ROOT :: path where
  "FIXED_DATA_ROOT =
     [''C:'', ''Users'', ''axier'', ''Desktop'', ''CARPETA PROGRAMACION'',
      ''quant_trading_system'', ''data'']"

definition sanitize_token :: "string \<Rightarrow> string" where
  "sanitize_token s0 =
     (let s1 = strip s0;
          s2 = re_sub_plus (\<lambda>c. \<not> is_alnum c) ''_'' s1;
          s3 = strip_chars ''_'' (re_sub_plus (\<lambda>c. c = CHR ''_'') ''_'' s2)
      in if s3 = [] then ''NA'' else s3)"

definition build_outpath_fixed ::
  "path \<Rightarrow> string \<Rightarrow> string \<Rightarrow> string \<Rightarrow> string \<Rightarrow> string \<Rightarrow> path \<times> event list" where
  "build_outpath_fixed data_root ticker interval start_tag end'tag ext =
     (let safe_ticker = sanitize_token ticker;
          safe_interval = sanitize_token interval;
          safe_start = sanitize_token start_tag;
          safe_end = sanitize_token end'tag;
          folder = path_div (path_div (path_div data_root safe_ticker) ''tohlcv'') safe_interval;
          filename = safe_start @ ''_'' @ safe_end @ ext
      in (path_div folder filename, [Mkdir folder]))"

definition save_df :: "dataframe \<Rightarrow> path \<Rightarrow> (exn + unit) \<times> event list" where
  "save_df df p =
     (if lower (suffix p) = ''.parquet'' then (Inr (), [Mkdir (parent p), ToParquet p df])
      else if lower (suffix p) = ''.csv'' then (Inr (), [Mkdir (parent p), ToCsv p df])
      else (Inl (ValueError (ExtensionNoSoportada (suffix p))), [Mkdir (parent p)]))"

text \<open>
  The sanitizer in the words of the specification: every maximal run of characters that
  are not alphanumeric becomes one underscore, leading and trailing underscores are
  removed, and \<open>NA\<close> stands for an empty result.
\<close>

definition spec_sanitize :: "string \<Rightarrow> string" where
  "spec_sanitize s =
     (let t = strip_pred (\<lambda>c. c = CHR ''_'') (re_sub_plus (\<lambda>c. \<not> is_alnum c) ''_'' s)
      in if t = [] then ''NA'' else t)"

section \<open>validate.py\<close>

definition REQUIRED_COLS :: "string list" where
  "REQUIRED_COLS = [''time'', ''open'', ''high'', ''low'', ''close'', ''volume'']"

fun check_ohlc :: "dataframe \<Rightarrow> string list \<Rightarrow> exn + unit" where
  \<comment> \<open>the loop over the price columns: the first one that is all NaN raises\<close>
  "check_ohlc df [] = Inr ()"
| "check_ohlc df (c # cs) =
     (case getitem df c of
        None \<Rightarrow> Inl (KeyError c)
      | Some col \<Rightarrow>
          if py_all (isna col) then Inl (ValueError (ColumnaTodaNaN c)) else check_ohlc df cs)"

definition validate_tohlcv :: "dataframe \<Rightarrow> exn + unit" where
  "validate_tohlcv df =
     (let missing = filter (\<lambda>c. c \<notin> set (map fst (columns df))) REQUIRED_COLS in
      if missing \<noteq> [] then Inl (ValueError (FaltanColumnas missing))
      else if df_empty df then Inl (ValueError DataFrameVacio)
      else case getitem df ''time'' of
        None \<Rightarrow> Inl (KeyError ''time'')
      | Some t \<Rightarrow>
          if py_any (isna t) then Inl (ValueError NaNsEnTime)
          else let dup = bool_sum (duplicated t) in
            if dup \<noteq> 0 then Inl (ValueError (TimestampsDuplicados dup))
            else if \<not> is_monotonic_increasing t then Inl (ValueError TimeNoOrdenado)
            else check_ohlc df [''open'', ''high'', ''low'', ''close''])"

text \<open>
  The conditions of the specification on a column, stated on its values: a value is
  missing, a value occurs twice, the values are in ascending order, every value is
  missing, the values are strictly ascending.
\<close>

fun has_missing :: "column \<Rightarrow> bool" where
  "has_missing (TimeCol tz xs) = (None \<in> set xs)"
| "has_missing (NumCol xs) = (None \<in> set xs)"

fun has_duplicate :: "column \<Rightarrow> bool" where
  "has_duplicate (TimeCol tz xs) = (\<not> distinct xs)"
| "has_duplicate (NumCol xs) = (\<not> distinct xs)"

definition ascending :: "('a :: linorder) option list \<Rightarrow> bool" where
  "ascending xs = (case those xs of None \<Rightarrow> False | Some vs \<Rightarrow> sorted vs)"

fun in_ascending_order :: "column \<Rightarrow> bool" where
  "in_ascending_order (TimeCol tz xs) = ascending xs"
| "in_ascending_order (NumCol xs) = ascending xs"

definition strictly_ascending :: "('a :: linorder) option list \<Rightarrow> bool" where
  "strictly_ascending xs = (case those xs of None \<Rightarrow> False | Some vs \<Rightarrow> sorted_wrt (<) vs)"

fun in_strictly_ascending_order :: "column \<Rightarrow> bool" where
  "in_strictly_ascending_order (TimeCol tz xs) = strictly_ascending xs"
| "in_strictly_ascending_order (NumCol xs) = strictly_ascending xs"


definition column_holds :: "dataframe \<Rightarrow> string \<Rightarrow> (column \<Rightarrow> bool) \<Rightarrow> bool" where
  \<comment> \<open>the frame has the column and the column has the property\<close>
  "column_holds df c P = (case getitem df c of None \<Rightarrow> False | Some col \<Rightarrow> P col)"


section \<open>yahoo.py\<close>

text \<open>
  The provider's answer: a frame indexed by timestamps (the values and the time zone of
  the index, \<open>None\<close> when the index is naive) whose column labels are either plain
  names or pairs (price field, ticker). A label is a key: a column is read by its label,
  and the first column of a label is the one read. \<open>yf.download\<close> is a parameter of
  the model: a function from the request to the answer, \<open>None\<close> when there is none.
\<close>

datatype raw_columns =
    Index "(string \<times> real option list) list"
  | MultiIndex "((string \<times> string) \<times> real option list) list"

record raw_frame =
  rf_index :: "int option list"
  rf_tz :: "string option"
  rf_columns :: raw_columns

fun n_columns :: "raw_columns \<Rightarrow> nat" where
  "n_columns (Index cs) = length cs"
| "n_columns (MultiIndex cs) = length cs"

definition raw_empty :: "raw_frame \<Rightarrow> bool" where
  "raw_empty df = (rf_index df = [] \<or> n_columns (rf_columns df) = 0)"

definition level_last :: "((string \<times> string) \<times> 'a) list \<Rightarrow> string list" where
  \<comment> \<open>\<open>columns.get_level_values(-1)\<close>\<close>
  "level_last cs = map (\<lambda>c. snd (fst c)) cs"

definition xs_last :: "string \<Rightarrow> ((string \<times> string) \<times> 'a) list \<Rightarrow> (string \<times> 'a) list" where
  \<comment> \<open>\<open>df.xs(key, axis=1, level=-1)\<close>: the columns of that key, the level dropped\<close>
  "xs_last key cs = map (\<lambda>c. (fst (fst c), snd c)) (filter (\<lambda>c. snd (fst c) = key) cs)"

definition select_ticker :: "string \<Rightarrow> raw_columns \<Rightarrow> exn + (string \<times> real option list) list" where
  "select_ticker ticker cols =
     (case cols of
        Index cs \<Rightarrow> Inr cs
      | MultiIndex cs \<Rightarrow>
          if ticker \<in> set (level_last cs) then Inr (xs_last ticker cs)
          else (case level_last cs of
                  [] \<Rightarrow> Inl IndexError
                | first # rest \<Rightarrow> Inr (xs_last first cs)))"

definition to_utc :: "string option \<Rightarrow> int option list \<Rightarrow> string option \<times> int option list" where
  \<comment> \<open>a naive index is read as UTC, an aware one keeps its instants; both get the zone UTC\<close>
  "to_utc tz idx = (case tz of None \<Rightarrow> (Some ''UTC'', idx) | Some z \<Rightarrow> (Some ''UTC'', idx))"

definition rename_column :: "string \<Rightarrow> string" where
  "rename_column c =
     (if c = ''Open'' then ''open''
      else if c = ''High'' then ''high''
      else if c = ''Low'' then ''low''
      else if c = ''Close'' then ''close''
      else if c = ''Adj Close'' then ''adj_close''
      else if c = ''Volume'' then ''volume''
      else c)"

definition df_get :: "(string \<times> real option list) list \<Rightarrow> nat \<Rightarrow> string \<Rightarrow> real option list" where
  \<comment> \<open>\<open>df.get(c)\<close> as a column of the new frame: all missing when the label is absent\<close>
  "df_get cs n c = (case map_of cs c of None \<Rightarrow> replicate n None | Some col \<Rightarrow> col)"

definition sort_rows :: "(int option \<times> 'r) list \<Rightarrow> (int option \<times> 'r) list" where
  \<comment> \<open>rows in the order of their time, rows without a time last\<close>
  "sort_rows rows =
     sort_key (\<lambda>r. case fst r of Some t \<Rightarrow> t | None \<Rightarrow> 0) (filter (\<lambda>r. fst r \<noteq> None) rows)
     @ filter (\<lambda>r. fst r = None) rows"

definition sorted_by :: "int option list \<Rightarrow> 'r list \<Rightarrow> 'r list" where
  \<comment> \<open>a column of the frame after \<open>sort_values("time")\<close>\<close>
  "sorted_by ts col = map snd (sort_rows (zip ts col))"

text \<open>
  The output frame: the index as the column \<open>time\<close> and the five columns read with
  \<open>df.get\<close>, then \<open>pd.to_numeric\<close> on the volume (nothing to do on cells that are
  numbers or missing), then the rows sorted by time, then a fresh row index. Rows of
  equal time keep their order here; pandas does not promise an order for them.
\<close>

definition build_frame :: "string option \<Rightarrow> int option list \<Rightarrow> (string \<times> real option list) list \<Rightarrow> dataframe" where
  "build_frame tz idx cs =
     (let n = length idx;
          num = (\<lambda>c. NumCol (sorted_by idx (df_get cs n c)))
      in \<lparr> nrows = n,
           columns = [(''time'', TimeCol tz (sorted_by idx idx)),
                      (''open'', num ''open''), (''high'', num ''high''), (''low'', num ''low''),
                      (''close'', num ''close''), (''volume'', num ''volume'')] \<rparr>)"

definition normalize_response :: "string \<Rightarrow> raw_frame \<Rightarrow> exn + dataframe" where
  \<comment> \<open>the steps after the download, for the stripped ticker and a frame that is not empty\<close>
  "normalize_response ticker df =
     (case select_ticker ticker (rf_columns df) of
        Inl e \<Rightarrow> Inl e
      | Inr cs \<Rightarrow>
          let (tz, idx) = to_utc (rf_tz df) (rf_index df);
              renamed = map (\<lambda>(c, col). (rename_column c, col)) cs
          in Inr (build_frame tz idx renamed))"

definition fetch_request ::
  "string \<Rightarrow> string \<Rightarrow> string option \<Rightarrow> string option \<Rightarrow> string option \<Rightarrow> bool \<Rightarrow> bool \<Rightarrow> int \<Rightarrow> request" where
  "fetch_request ticker interval start end' period auto_adjust prepost timeout =
     (if start \<noteq> None \<or> end' \<noteq> None
      then \<lparr> req_tickers = ticker, req_interval = interval, req_start = start, req_end = end',
             req_period = None, req_auto_adjust = auto_adjust, req_prepost = prepost,
             req_timeout = timeout \<rparr>
      else \<lparr> req_tickers = ticker, req_interval = interval, req_start = None, req_end = None,
             req_period = Some (case period of None \<Rightarrow> ''60d'' | Some p \<Rightarrow> p),
             req_auto_adjust = auto_adjust, req_prepost = prepost, req_timeout = timeout \<rparr>)"

definition fetch_tohlcv_yahoo ::
  "(request \<Rightarrow> raw_frame option) \<Rightarrow> string \<Rightarrow> string \<Rightarrow> string option \<Rightarrow> string option \<Rightarrow>
     string option \<Rightarrow> bool \<Rightarrow> bool \<Rightarrow> int \<Rightarrow> (exn + dataframe) \<times> event list" where
  "fetch_tohlcv_yahoo download ticker0 interval start end' period auto_adjust prepost timeout =
     (let ticker = strip ticker0 in
      if ticker = [] then (Inl (ValueError TickerVacio), [])
      else
        let req = fetch_request ticker interval start end' period auto_adjust prepost timeout in
        case download req of
          None \<Rightarrow> (Inl (RuntimeError (YahooSinDatos ticker interval)), [Download req])
        | Some df \<Rightarrow>
            if raw_empty df then (Inl (RuntimeError (YahooSinDatos ticker interval)), [Download req])
            else (normalize_response ticker df, [Download req]))"

section \<open>Calendar dates\<close>

text \<open>
  The proleptic Gregorian calendar of \<open>datetime\<close>: a date is a year, a month and a day;
  its ordinal counts the days from 0001-01-01, which has ordinal 1.
\<close>

record date =
  year :: int
  month :: int
  day :: int

definition is_leap :: "int \<Rightarrow> bool" where
  "is_leap y = (y mod 4 = 0 \<and> (y mod 100 \<noteq> 0 \<or> y mod 400 = 0))"

definition DAYS_IN_MONTH :: "int list" where
  "DAYS_IN_MONTH = [-1, 31, 28, 31, 30, 31, 30, 31, 31, 30, 31, 30, 31]"

definition DAYS_BEFORE_MONTH :: "int list" where
  "DAYS_BEFORE_MONTH = [-1, 0, 31, 59, 90, 120, 151, 181, 212, 243, 273, 304, 334]"

definition MAXORDINAL :: int where
  "MAXORDINAL = 3652059"

definition days_in_month :: "int \<Rightarrow> int \<Rightarrow> int" where
  "days_in_month y m = (if m = 2 \<and> is_leap y then 29 else DAYS_IN_MONTH ! nat m)"

definition days_before_year :: "int \<Rightarrow> int" where
  "days_before_year y = (let y1 = y - 1 in y1 * 365 + y1 div 4 - y1 div 100 + y1 div 400)"

definition days_before_month :: "int \<Rightarrow> int \<Rightarrow> int" where
  "days_before_month y m = DAYS_BEFORE_MONTH ! nat m + (if m > 2 \<and> is_leap y then 1 else 0)"

definition valid_date :: "date \<Rightarrow> bool" where
  \<comment> \<open>the check of the constructor \<open>datetime(year, month, day)\<close>\<close>
  "valid_date d =
     (1 \<le> year d \<and> year d \<le> 9999 \<and> 1 \<le> month d \<and> month d \<le> 12 \<and>
      1 \<le> day d \<and> day d \<le> days_in_month (year d) (month d))"

definition toordinal :: "date \<Rightarrow> int" where
  "toordinal d = days_before_year (year d) + days_before_month (year d) (month d) + day d"

definition fromordinal :: "int \<Rightarrow> date" where
  "fromordinal n0 =
     (let n = n0 - 1;
          n400 = n div 146097; n = n mod 146097;
          n100 = n div 36524; n = n mod 36524;
          n4 = n div 1461; n = n mod 1461;
          n1 = n div 365; n = n mod 365;
          y = n400 * 400 + 1 + n100 * 100 + n4 * 4 + n1
      in if n1 = 4 \<or> n100 = 4 then \<lparr> year = y - 1, month = 12, day = 31 \<rparr>
         else
           let leapyear = (n1 = 3 \<and> (n4 \<noteq> 24 \<or> n100 = 3));
               m = (n + 50) div 32;
               preceding = DAYS_BEFORE_MONTH ! nat m + (if m > 2 \<and> leapyear then 1 else 0)
           in if preceding > n
              then let m' = m - 1;
                       preceding' = preceding -
                         (DAYS_IN_MONTH ! nat m' + (if m' = 2 \<and> leapyear then 1 else 0))
                   in \<lparr> year = y, month = m', day = n - preceding' + 1 \<rparr>
              else \<lparr> year = y, month = m, day = n - preceding + 1 \<rparr>)"

definition add_one_day :: "date \<Rightarrow> exn + date" where
  \<comment> \<open>\<open>d + timedelta(days=1)\<close>\<close>
  "add_one_day d =
     (let o' = toordinal d + 1 in
      if 0 < o' \<and> o' \<le> MAXORDINAL then Inr (fromordinal o') else Inl OverflowError)"

definition strftime_ymd :: "date \<Rightarrow> string" where
  \<comment> \<open>\<open>strftime("%Y-%m-%d")\<close> with the year padded to four digits, as documented;
      it is also \<open>str\<close> of a date\<close>
  "strftime_ymd d =
     zero_padded 4 (year d) @ ''-'' @ zero_padded 2 (month d) @ ''-'' @ zero_padded 2 (day d)"

definition date_of_timestamp :: "int \<Rightarrow> date" where
  \<comment> \<open>\<open>t.date()\<close> of a UTC timestamp; 1970-01-01 has ordinal 719163\<close>
  "date_of_timestamp ns = fromordinal (ns div 86400000000000 + 719163)"

text \<open>
  The calendar-date form \<open>YYYY-MM-DD\<close> of ISO 8601, one of the forms that
  \<open>dateutil.parser.isoparse\<close> reads. The functions of \<open>cli.py\<close> take the parser as a
  parameter; this one stands for it on concrete inputs.
\<close>

definition is_digit :: "char \<Rightarrow> bool" where
  "is_digit c = (let n = (of_char c :: nat) in 48 \<le> n \<and> n \<le> 57)"

definition number :: "string \<Rightarrow> int" where
  "number s = foldl (\<lambda>a c. 10 * a + (int (of_char c) - 48)) 0 s"

definition iso_ymd :: "string \<Rightarrow> date option" where
  "iso_ymd s =
     (if length s = 10 \<and> s ! 4 = CHR ''-'' \<and> s ! 7 = CHR ''-'' \<and>
         list_all is_digit (take 4 s) \<and> list_all is_digit (take 2 (drop 5 s)) \<and>
         list_all is_digit (drop 8 s)
      then Some \<lparr> year = number (take 4 s), month = number (take 2 (drop 5 s)),
                  day = number (drop 8 s) \<rparr>
      else None)"

section \<open>cli.py\<close>

datatype warning = SameDayRange string string
  \<comment> \<open>the message about a range of one day, with the end given and the new end\<close>

definition parse_date_yyyy_mm_dd :: "(string \<Rightarrow> date option) \<Rightarrow> string \<Rightarrow> date option" where
  \<comment> \<open>\<open>None\<close> where \<open>isoparse\<close> or the constructor of \<open>datetime\<close> raises\<close>
  "parse_date_yyyy_mm_dd isoparse s =
     (case isoparse s of None \<Rightarrow> None | Some d \<Rightarrow> if valid_date d then Some d else None)"

definition fix_same_day_range ::
  "(string \<Rightarrow> date option) \<Rightarrow> string option \<Rightarrow> string option \<Rightarrow>
     exn + (string option \<times> string option \<times> warning option)" where
  "fix_same_day_range isoparse start end' =
     (if \<not> truthy start \<or> \<not> truthy end' then Inr (start, end', None)
      else case (start, end') of
        (Some s, Some e) \<Rightarrow>
          (case parse_date_yyyy_mm_dd isoparse s of
             None \<Rightarrow> Inr (start, end', None)
           | Some ds \<Rightarrow>
               (case parse_date_yyyy_mm_dd isoparse e of
                  None \<Rightarrow> Inr (start, end', None)
                | Some de \<Rightarrow>
                    if ds = de
                    then (case add_one_day de of
                            Inl x \<Rightarrow> Inl x
                          | Inr d \<Rightarrow>
                              let new_end = strftime_ymd d
                              in Inr (start, Some new_end, Some (SameDayRange e new_end)))
                    else Inr (start, end', None)))
      | _ \<Rightarrow> Inr (start, end', None))"

record args =
  arg_wizard :: bool
  arg_ticker :: "string option"
  arg_interval :: string
  arg_start :: "string option"
  arg_end :: "string option"
  arg_period :: "string option"
  arg_auto_adjust :: bool
  arg_prepost :: bool
  arg_out :: "string option"
  arg_format :: string
  arg_no_save :: bool

text \<open>The request as \<open>main\<close> settles it, from the answers of the wizard or from the flags.\<close>

record params =
  p_ticker :: string
  p_interval :: string
  p_start :: "string option"
  p_end :: "string option"
  p_period :: "string option"
  p_format :: string
  p_no_save :: bool

text \<open>
  What \<open>main\<close> takes from outside: the date parser, the provider, the dictionary the
  wizard returns, and \<open>Path(out).resolve()\<close>, which depends on the file system.
\<close>

record env =
  isoparse_date :: "string \<Rightarrow> date option"
  yf_download :: "request \<Rightarrow> raw_frame option"
  wizard :: params
  resolve :: "string \<Rightarrow> path"

definition request_params :: "env \<Rightarrow> args \<Rightarrow> params" where
  "request_params e a =
     (if arg_wizard a \<or> is_blank (arg_ticker a) then wizard e
      else
        let start = (if is_blank (arg_start a) then None else arg_start a);
            end' = (if is_blank (arg_end a) then None else arg_end a);
            use_start_end = (start \<noteq> None \<or> end' \<noteq> None)
        in \<lparr> p_ticker = (case arg_ticker a of None \<Rightarrow> [] | Some t \<Rightarrow> t),
             p_interval = arg_interval a,
             p_start = start,
             p_end = end',
             p_period = (if use_start_end then None
                         else if is_blank (arg_period a) then None else arg_period a),
             p_format = arg_format a,
             p_no_save = arg_no_save a \<rparr>)"

definition first_last_dates :: "dataframe \<Rightarrow> exn + (date \<times> date)" where
  \<comment> \<open>the dates of \<open>df["time"].iloc[0]\<close> and \<open>df["time"].iloc[-1]\<close>\<close>
  "first_last_dates df =
     (case getitem df ''time'' of
        Some (TimeCol tz (Some t0 # rest)) \<Rightarrow>
          (case last (Some t0 # rest) of
             Some t1 \<Rightarrow> Inr (date_of_timestamp t0, date_of_timestamp t1)
           | None \<Rightarrow> Inl (ValueError NaNsEnTime))
      | Some (TimeCol tz (None # rest)) \<Rightarrow> Inl (ValueError NaNsEnTime)
      | Some col \<Rightarrow> Inl IndexError
      | None \<Rightarrow> Inl (KeyError ''time''))"

definition tags :: "string option \<Rightarrow> string option \<Rightarrow> dataframe \<Rightarrow> exn + (string \<times> string)" where
  "tags start end' df =
     (case (start, end') of
        (Some s, Some e) \<Rightarrow>
          if s \<noteq> [] \<and> e \<noteq> [] then Inr (s, e)
          else map_sum id (\<lambda>(d0, d1). (strftime_ymd d0, strftime_ymd d1)) (first_last_dates df)
      | _ \<Rightarrow> map_sum id (\<lambda>(d0, d1). (strftime_ymd d0, strftime_ymd d1)) (first_last_dates df))"

definition save :: "env \<Rightarrow> args \<Rightarrow> params \<Rightarrow> string option \<Rightarrow> string option \<Rightarrow> dataframe \<Rightarrow>
    (exn + int) \<times> event list" where
  \<comment> \<open>the branch \<open>if not no_save\<close> of \<open>main\<close>\<close>
  "save e a p start end' df =
     (case tags start end' df of
        Inl x \<Rightarrow> (Inl x, [])
      | Inr (start_tag, end_tag) \<Rightarrow>
          let ext = (if p_format p = ''parquet'' then ''.parquet'' else ''.csv'');
              (outpath, ev2) =
                (case arg_out a of
                   Some out \<Rightarrow>
                     if out \<noteq> [] then (resolve e out, [])
                     else build_outpath_fixed FIXED_DATA_ROOT (p_ticker p) (p_interval p)
                            start_tag end_tag ext
                 | None \<Rightarrow>
                     build_outpath_fixed FIXED_DATA_ROOT (p_ticker p) (p_interval p)
                       start_tag end_tag ext);
              (r, ev3) = save_df df outpath
          in (case r of Inl x \<Rightarrow> (Inl x, ev2 @ ev3) | Inr u \<Rightarrow> (Inr 0, ev2 @ ev3)))"

definition main :: "env \<Rightarrow> args \<Rightarrow> (exn + int) \<times> event list" where
  \<comment> \<open>the exit code, or the exception that leaves \<open>main\<close>, and what the run did\<close>
  "main e a =
     (let p = request_params e a in
      case fix_same_day_range (isoparse_date e) (p_start p) (p_end p) of
        Inl x \<Rightarrow> (Inl x, [])
      | Inr (start, end', warn) \<Rightarrow>
          let (r, ev1) = fetch_tohlcv_yahoo (yf_download e) (p_ticker p) (p_interval p)
                           start end' (p_period p) (arg_auto_adjust a) (arg_prepost a) 30
          in case r of
               Inl x \<Rightarrow> (Inr 2, ev1)
             | Inr df \<Rightarrow>
                 (case validate_tohlcv df of
                    Inl x \<Rightarrow> (Inr 2, ev1)
                  | Inr u \<Rightarrow>
                      if p_no_save p then (Inr 0, ev1)
                      else let (r2, ev2) = save e a p start end' df in (r2, ev1 @ ev2)))"

definition written_paths :: "event list \<Rightarrow> path list" where
  \<comment> \<open>the paths of the files a run wrote\<close>
  "written_paths evs =
     concat (map (\<lambda>ev. case ev of ToParquet p df \<Rightarrow> [p] | ToCsv p df \<Rightarrow> [p] | _ \<Rightarrow> []) evs)"

section \<open>Example data\<close>

definition example_frame :: dataframe where
  "example_frame =
     \<lparr> nrows = 2,
       columns =
         [(''time'', TimeCol (Some ''UTC'') [Some 1704067200000000000, Some 1704153600000000000]),
          (''open'', NumCol [Some 10, Some 11]),
          (''high'', NumCol [Some 12, None]),
          (''low'', NumCol [Some 9, Some 10]),
          (''close'', NumCol [Some 11, Some 12]),
          (''volume'', NumCol [None, None])] \<rparr>"

definition example_frame_duplicate :: dataframe where
  "example_frame_duplicate =
     \<lparr> nrows = 2,
       columns =
         [(''time'', TimeCol (Some ''UTC'') [Some 1704067200000000000, Some 1704067200000000000]),
          (''open'', NumCol [Some 10, Some 11]),
          (''high'', NumCol [Some 12, None]),
          (''low'', NumCol [Some 9, Some 10]),
          (''close'', NumCol [Some 11, Some 12]),
          (''volume'', NumCol [None, None])] \<rparr>"

definition example_multi :: raw_frame where
  "example_multi =
     \<lparr> rf_index = [Some 1704153600000000000, Some 1704067200000000000],
       rf_tz = None,
       rf_columns = MultiIndex
         [((''Close'', ''MSFT''), [Some 371, Some 376]),
          ((''Open'', ''MSFT''), [Some 370, Some 374]),
          ((''Close'', ''AAPL''), [Some 184, Some 185]),
          ((''Open'', ''AAPL''), [Some 182, Some 187])] \<rparr>"

definition example_other :: raw_frame where
  "example_other =
     \<lparr> rf_index = [Some 1704067200000000000],
       rf_tz = Some ''America/New_York'',
       rf_columns = MultiIndex [((''Close'', ''MSFT''), [Some 376])] \<rparr>"

definition example_none :: raw_frame where
  "example_none = \<lparr> rf_index = [], rf_tz = None, rf_columns = Index [] \<rparr>"

definition example_response :: raw_frame where
  "example_response =
     \<lparr> rf_index = [Some 1704067200000000000, Some 1704153600000000000],
       rf_tz = None,
       rf_columns = Index
         [(''Open'', [Some 187, Some 184]), (''High'', [Some 188, Some 185]),
          (''Low'', [Some 183, Some 182]), (''Close'', [Some 185, Some 184]),
          (''Volume'', [Some 82488700, Some 58414500])] \<rparr>"

definition example_response_later :: raw_frame where
  "example_response_later =
     \<lparr> rf_index = [Some 1704153600000000000, Some 1704240000000000000],
       rf_tz = None,
       rf_columns = Index
         [(''Open'', [Some 184, Some 182]), (''High'', [Some 185, Some 183]),
          (''Low'', [Some 182, Some 180]), (''Close'', [Some 184, Some 181]),
          (''Volume'', [Some 58414500, Some 71983600])] \<rparr>"

definition example_out :: dataframe where
  "example_out =
     \<lparr> nrows = 2,
       columns =
         [(''time'', TimeCol (Some ''UTC'') [Some 1704067200000000000, Some 1704153600000000000]),
          (''open'', NumCol [Some 187, Some 184]), (''high'', NumCol [Some 188, Some 185]),
          (''low'', NumCol [Some 183, Some 182]), (''close'', NumCol [Some 185, Some 184]),
          (''volume'', NumCol [Some 82488700, Some 58414500])] \<rparr>"

definition example_out_later :: dataframe where
  "example_out_later =
     \<lparr> nrows = 2,
       columns =
         [(''time'', TimeCol (Some ''UTC'') [Some 1704153600000000000, Some 1704240000000000000]),
          (''open'', NumCol [Some 184, Some 182]), (''high'', NumCol [Some 185, Some 183]),
          (''low'', NumCol [Some 182, Some 180]), (''close'', NumCol [Some 184, Some 181]),
          (''volume'', NumCol [Some 58414500, Some 71983600])] \<rparr>"

definition example_args :: args where
  "example_args =
     \<lparr> arg_wizard = False, arg_ticker = Some ''AAPL'', arg_interval = ''1d'',
       arg_start = None, arg_end = None, arg_period = None, arg_auto_adjust = False,
       arg_prepost = False, arg_out = None, arg_format = ''parquet'', arg_no_save = False \<rparr>"

definition example_env :: "(request \<Rightarrow> raw_frame option) \<Rightarrow> env" where
  "example_env dl =
     \<lparr> isoparse_date = iso_ymd, yf_download = dl,
       wizard = \<lparr> p_ticker = ''SPY'', p_interval = ''1h'', p_start = None, p_end = None,
                  p_period = Some ''60d'', p_format = ''csv'', p_no_save = True \<rparr>,
       resolve = (\<lambda>out. [out]) \<rparr>"

definition example_args_day :: args where
  "example_args_day = example_args\<lparr>arg_start := Some ''2024-01-02'', arg_end := Some ''2024-01-02''\<rparr>"

definition example_args_out :: args where
  "example_args_out = example_args\<lparr>arg_out := Some ''aapl.csv''\<rparr>"

section \<open>Properties of the string functions\<close>

lemma re_sub_plus_Cons:
  "re_sub_plus P r (c # cs) =
     (if P c then (if cs \<noteq> [] \<and> P (hd cs) then re_sub_plus P r cs else r @ re_sub_plus P r cs)
      else c # re_sub_plus P r cs)"
  by (cases cs) auto

declare re_sub_plus.simps(2) [simp del]

lemma re_sub_plus_snoc:
  "re_sub_plus P r (cs @ [c]) =
     (if P c then (if cs \<noteq> [] \<and> P (last cs) then re_sub_plus P r cs else re_sub_plus P r cs @ r)
      else re_sub_plus P r cs @ [c])"
proof (induction cs)
  case Nil
  then show ?case by (simp add: re_sub_plus_Cons)
next
  case (Cons a cs)
  show ?case
  proof (cases cs)
    case Nil
    then show ?thesis by (simp add: re_sub_plus_Cons)
  next
    case (Cons b bs)
    then show ?thesis
      using Cons.IH by (simp only: re_sub_plus_Cons append_Cons) auto
  qed
qed

lemma re_sub_plus_rev:
  assumes "rev r = r"
  shows "re_sub_plus P r (rev s) = rev (re_sub_plus P r s)"
proof (induction s)
  case Nil
  then show ?case by simp
next
  case (Cons a s)
  show ?case
    using Cons.IH assms
    by (simp only: rev.simps re_sub_plus_snoc re_sub_plus_Cons) (auto simp: last_rev)
qed

lemma dropWhile_re_sub_plus_lstrip:
  assumes "\<And>c. W c \<Longrightarrow> N c"
  shows "dropWhile (\<lambda>c. c = u) (re_sub_plus N [u] (dropWhile W s)) =
         dropWhile (\<lambda>c. c = u) (re_sub_plus N [u] s)"
proof (induction s)
  case Nil
  then show ?case by simp
next
  case (Cons a s)
  show ?case
  proof (cases "W a")
    case True
    then have "N a" by (rule assms)
    then have "dropWhile (\<lambda>c. c = u) (re_sub_plus N [u] (a # s)) =
               dropWhile (\<lambda>c. c = u) (re_sub_plus N [u] s)"
      by (simp only: re_sub_plus_Cons) simp
    with True Cons.IH show ?thesis by simp
  next
    case False
    then show ?thesis by simp
  qed
qed

lemma hd_re_sub_plus:
  "s \<noteq> [] \<Longrightarrow> \<not> N (hd s) \<Longrightarrow> re_sub_plus N r s \<noteq> [] \<and> hd (re_sub_plus N r s) = hd s"
  by (cases s) (auto simp: re_sub_plus_Cons)

lemma re_sub_plus_collapse_id:
  assumes "N u"
  shows "re_sub_plus (\<lambda>c. c = u) [u] (re_sub_plus N [u] s) = re_sub_plus N [u] s"
proof (induction s)
  case Nil
  then show ?case by simp
next
  case (Cons a s)
  show ?case
  proof (cases "N a")
    case True
    show ?thesis
    proof (cases "s \<noteq> [] \<and> N (hd s)")
      case True
      with \<open>N a\<close> Cons.IH show ?thesis by (simp only: re_sub_plus_Cons) simp
    next
      case False
      then have nohd: "re_sub_plus N [u] s = [] \<or> hd (re_sub_plus N [u] s) \<noteq> u"
        using hd_re_sub_plus [of s N "[u]"] assms by (cases s) auto
      then have "dropWhile (\<lambda>c. c = u) (re_sub_plus N [u] s) = re_sub_plus N [u] s"
        by (cases "re_sub_plus N [u] s") auto
      with nohd False \<open>N a\<close> Cons.IH show ?thesis by (auto simp: re_sub_plus_Cons)
    qed
  next
    case False
    with assms have "a \<noteq> u" by auto
    with False Cons.IH show ?thesis by (simp add: re_sub_plus_Cons)
  qed
qed

lemma rstrip_Cons:
  "rev (dropWhile P (rev (x # xs))) =
     (if \<forall>y\<in>set xs. P y then (if P x then [] else [x]) else x # rev (dropWhile P (rev xs)))"
  by (simp add: dropWhile_append)

lemma strip_pred_commute:
  "rev (dropWhile P (rev (dropWhile P s))) = dropWhile P (rev (dropWhile P (rev s)))"
proof (induction s)
  case Nil
  then show ?case by simp
next
  case (Cons x xs)
  show ?case
  proof (cases "P x")
    case True
    with Cons.IH show ?thesis by (simp only: rstrip_Cons) (auto dest: set_dropWhileD)
  next
    case False
    then have "dropWhile P (x # xs) = x # xs" by simp
    with False show ?thesis by (simp only: rstrip_Cons) auto
  qed
qed

lemma set_re_sub_plus: "set (re_sub_plus N r s) \<subseteq> {c \<in> set s. \<not> N c} \<union> set r"
  by (induction s) (auto simp: re_sub_plus_Cons)

lemma set_strip_pred: "set (strip_pred P s) \<subseteq> set s"
proof
  fix x assume "x \<in> set (strip_pred P s)"
  then have "x \<in> set (dropWhile P (rev (dropWhile P s)))" by (simp add: strip_pred_def)
  then have "x \<in> set (rev (dropWhile P s))" by (rule set_dropWhileD)
  then have "x \<in> set (dropWhile P s)" by simp
  then show "x \<in> set s" by (rule set_dropWhileD)
qed

lemma hd_strip_pred: "strip_pred P s \<noteq> [] \<Longrightarrow> \<not> P (hd (strip_pred P s))"
  unfolding strip_pred_def by (simp only: strip_pred_commute) (rule hd_dropWhile, simp)

lemma last_strip_pred: "strip_pred P s \<noteq> [] \<Longrightarrow> \<not> P (last (strip_pred P s))"
  unfolding strip_pred_def by (simp add: last_rev hd_dropWhile)

lemma successively_dropWhile: "successively Q xs \<Longrightarrow> successively Q (dropWhile P xs)"
  by (induction xs) (auto simp: successively_Cons)

lemma successively_strip_pred:
  assumes "successively Q xs" and "\<And>a b. Q a b = Q b a"
  shows "successively Q (strip_pred P xs)"
proof -
  have "(\<lambda>x y. Q y x) = Q" using assms(2) by auto
  then show ?thesis
    unfolding strip_pred_def using assms(1) by (simp add: successively_dropWhile)
qed

lemma successively_re_sub_plus:
  assumes "N u"
  shows "successively (\<lambda>a b. \<not> (a = u \<and> b = u)) (re_sub_plus N [u] s)"
proof (induction s)
  case Nil
  then show ?case by simp
next
  case (Cons a s)
  show ?case
  proof (cases "N a \<and> \<not> (s \<noteq> [] \<and> N (hd s))")
    case True
    then have "re_sub_plus N [u] s = [] \<or> hd (re_sub_plus N [u] s) \<noteq> u"
      using hd_re_sub_plus [of s N "[u]"] assms by (cases s) auto
    with True Cons.IH show ?thesis
      by (auto simp: re_sub_plus_Cons successively_Cons)
  next
    case False
    with Cons.IH assms show ?thesis
      by (auto simp: re_sub_plus_Cons successively_Cons)
  qed
qed

lemma re_sub_plus_all:
  "\<forall>c\<in>set s. N c \<Longrightarrow> re_sub_plus N r s = (if s = [] then [] else r)"
  by (induction s) (auto simp: re_sub_plus_Cons)

section \<open>io.py: the sanitizer\<close>

lemma sanitize_token_eq_spec: "sanitize_token s = spec_sanitize s"
proof -
  let ?N = "\<lambda>c. \<not> is_alnum c"
  let ?U = "\<lambda>c. c = CHR ''_''"
  let ?f = "re_sub_plus ?N ''_''"
  have W: "\<And>c. is_space c \<Longrightarrow> ?N c"
    by (auto simp: is_space_def is_alnum_def Let_def)
  have U: "?N CHR ''_''" by (simp add: is_alnum_def)
  have left: "\<And>t. dropWhile ?U (?f (dropWhile is_space t)) = dropWhile ?U (?f t)"
    using dropWhile_re_sub_plus_lstrip [of is_space ?N] W by blast
  have revf: "\<And>t. ?f (rev t) = rev (?f t)"
    by (rule re_sub_plus_rev) simp
  have "strip_pred ?U (?f (strip_pred is_space s)) = strip_pred ?U (?f s)"
  proof -
    let ?t = "dropWhile is_space s"
    have "strip_pred ?U (?f (strip_pred is_space s)) =
          rev (dropWhile ?U (rev (dropWhile ?U (rev (?f (dropWhile is_space (rev ?t)))))))"
      unfolding strip_pred_def by (simp only: revf)
    also have "\<dots> = dropWhile ?U (rev (dropWhile ?U (?f (dropWhile is_space (rev ?t)))))"
      by (simp only: strip_pred_commute rev_rev_ident)
    also have "\<dots> = dropWhile ?U (rev (dropWhile ?U (rev (?f ?t))))"
      by (simp only: left revf)
    also have "\<dots> = rev (dropWhile ?U (rev (dropWhile ?U (?f ?t))))"
      by (simp only: strip_pred_commute)
    also have "\<dots> = strip_pred ?U (?f s)"
      unfolding strip_pred_def by (simp only: left)
    finally show ?thesis .
  qed
  moreover have "(\<lambda>c. c \<in> set ''_'') = ?U" by auto
  ultimately show ?thesis
    using re_sub_plus_collapse_id [of ?N "CHR ''_''", OF U]
    by (simp add: sanitize_token_def spec_sanitize_def strip_def strip_chars_def)
qed

lemmas string_eval =
  strip_def strip_chars_def strip_pred_def re_sub_plus_Cons is_space_def is_alnum_def

text \<open>
  C9. For every input string, the sanitizer returns a string that is not empty, consists
  of ASCII letters, digits and underscores only, neither starts nor ends with an
  underscore and has no two underscores in a row; when no character of the input is
  alphanumeric, it returns \<open>NA\<close>.
\<close>

theorem sanitize_token_shape:
  "sanitize_token s \<noteq> [] \<and>
   (\<forall>c\<in>set (sanitize_token s). is_alnum c \<or> c = CHR ''_'') \<and>
   hd (sanitize_token s) \<noteq> CHR ''_'' \<and>
   last (sanitize_token s) \<noteq> CHR ''_'' \<and>
   (\<forall>i. Suc i < length (sanitize_token s) \<longrightarrow>
        \<not> (sanitize_token s ! i = CHR ''_'' \<and> sanitize_token s ! Suc i = CHR ''_'')) \<and>
   ((\<forall>c\<in>set s. \<not> is_alnum c) \<longrightarrow> sanitize_token s = ''NA'')"
proof -
  let ?N = "\<lambda>c. \<not> is_alnum c"
  let ?U = "\<lambda>c. c = CHR ''_''"
  let ?t = "strip_pred ?U (re_sub_plus ?N ''_'' s)"
  have U: "?N CHR ''_''" by (simp add: is_alnum_def)
  have eq: "sanitize_token s = (if ?t = [] then ''NA'' else ?t)"
    by (simp add: sanitize_token_eq_spec spec_sanitize_def)
  have NA: "is_alnum CHR ''N''" "is_alnum CHR ''A''" by (simp_all add: is_alnum_def)
  have p1: "sanitize_token s \<noteq> []" by (simp add: eq)
  have "set ?t \<subseteq> {c. is_alnum c} \<union> {CHR ''_''}"
    using set_strip_pred [of ?U "re_sub_plus ?N ''_'' s"] set_re_sub_plus [of ?N "''_''" s]
    by auto
  then have p2: "\<forall>c\<in>set (sanitize_token s). is_alnum c \<or> c = CHR ''_''"
    using NA by (auto simp: eq)
  have p3: "hd (sanitize_token s) \<noteq> CHR ''_''"
    using hd_strip_pred [of ?U "re_sub_plus ?N ''_'' s"] by (simp add: eq)
  have p4: "last (sanitize_token s) \<noteq> CHR ''_''"
    using last_strip_pred [of ?U "re_sub_plus ?N ''_'' s"] by (simp add: eq)
  have "successively (\<lambda>a b. \<not> (a = CHR ''_'' \<and> b = CHR ''_'')) ?t"
    using successively_re_sub_plus [of ?N "CHR ''_''" s] U
    by (intro successively_strip_pred) auto
  then have "successively (\<lambda>a b. \<not> (a = CHR ''_'' \<and> b = CHR ''_'')) (sanitize_token s)"
    by (simp add: eq)
  then have p5: "\<forall>i. Suc i < length (sanitize_token s) \<longrightarrow>
        \<not> (sanitize_token s ! i = CHR ''_'' \<and> sanitize_token s ! Suc i = CHR ''_'')"
    by (simp only: successively_conv_nth)
  have p6: "(\<forall>c\<in>set s. \<not> is_alnum c) \<longrightarrow> sanitize_token s = ''NA''"
  proof
    assume "\<forall>c\<in>set s. \<not> is_alnum c"
    then have "re_sub_plus ?N ''_'' s = (if s = [] then [] else ''_'')"
      by (rule re_sub_plus_all)
    then have "?t = []" by (simp add: strip_pred_def)
    then show "sanitize_token s = ''NA''" by (simp add: eq)
  qed
  from p1 p2 p3 p4 p5 p6 show ?thesis by blast
qed

theorem sanitize_token_shape_witness:
  "sanitize_token '' ^GSPC  '' = ''GSPC'' \<and> sanitize_token ''BTC-USD'' = ''BTC_USD'' \<and>
   sanitize_token '' =-= '' = ''NA''"
  using sanitize_token_shape [of "'' ^GSPC  ''"] sanitize_token_shape [of "'' =-= ''"]
  by (simp add: sanitize_token_def string_eval)

text \<open>
  C4. For every ticker, interval, start tag, end tag and extension, the path built is
  the data root, then the sanitized ticker, then \<open>tohlcv\<close>, then the sanitized interval,
  then the file name made of the sanitized start tag, an underscore, the sanitized end
  tag and the extension, where the sanitizer is the one of the specification; the path
  is a function of these arguments.
\<close>

theorem build_outpath_fixed_path:
  "fst (build_outpath_fixed data_root ticker interval start_tag end_tag ext) =
     data_root @ [spec_sanitize ticker, ''tohlcv'', spec_sanitize interval,
                  spec_sanitize start_tag @ ''_'' @ spec_sanitize end_tag @ ext]"
  by (simp add: build_outpath_fixed_def path_div_def sanitize_token_eq_spec Let_def)

theorem build_outpath_fixed_path_witness:
  "fst (build_outpath_fixed FIXED_DATA_ROOT ''BTC-USD'' ''1h'' ''2025-01-01'' ''2026-01-01'' ''.parquet'') =
     FIXED_DATA_ROOT @ [''BTC_USD'', ''tohlcv'', ''1h'', ''2025_01_01_2026_01_01.parquet'']"
  by (simp add: build_outpath_fixed_path spec_sanitize_def string_eval)

section \<open>io.py: writing the frame\<close>

lemma lower_suffix_examples:
  "lower (suffix [''data'', ''a.PARQUET'']) = ''.parquet''"
  "lower (suffix [''data'', ''a.Csv'']) = ''.csv''"
  "lower (suffix [''data'', ''a.txt'']) = ''.txt''"
  "lower (suffix [''data'', ''.csv'']) = ''''"
  by (simp_all add: lower_def lower_char_def suffix_def name_def char_of_def bit_Suc_0_iff)

text \<open>
  C10. \<open>save_df\<close> writes the frame exactly when the suffix of the path, in lower
  case, is \<open>.parquet\<close> (then as parquet) or \<open>.csv\<close> (then as csv); for every
  other suffix it raises ValueError and writes no file.
\<close>

theorem save_df_extension:
  "(lower (suffix p) = ''.parquet'' \<longrightarrow>
      save_df df p = (Inr (), [Mkdir (parent p), ToParquet p df])) \<and>
   (lower (suffix p) = ''.csv'' \<longrightarrow>
      save_df df p = (Inr (), [Mkdir (parent p), ToCsv p df])) \<and>
   (lower (suffix p) \<noteq> ''.parquet'' \<and> lower (suffix p) \<noteq> ''.csv'' \<longrightarrow>
      fst (save_df df p) = Inl (ValueError (ExtensionNoSoportada (suffix p))) \<and>
      filter is_write (snd (save_df df p)) = []) \<and>
   ((filter is_write (snd (save_df df p)) \<noteq> []) =
      (lower (suffix p) = ''.parquet'' \<or> lower (suffix p) = ''.csv''))"
  by (simp add: save_df_def)

theorem save_df_extension_witness:
  "save_df \<lparr> nrows = 1, columns = [(''time'', TimeCol (Some ''UTC'') [Some 0])] \<rparr>
     [''data'', ''a.PARQUET''] =
     (Inr (), [Mkdir [''data''],
               ToParquet [''data'', ''a.PARQUET'']
                 \<lparr> nrows = 1, columns = [(''time'', TimeCol (Some ''UTC'') [Some 0])] \<rparr>]) \<and>
   save_df \<lparr> nrows = 1, columns = [(''time'', TimeCol (Some ''UTC'') [Some 0])] \<rparr>
     [''data'', ''a.Csv''] =
     (Inr (), [Mkdir [''data''],
               ToCsv [''data'', ''a.Csv'']
                 \<lparr> nrows = 1, columns = [(''time'', TimeCol (Some ''UTC'') [Some 0])] \<rparr>]) \<and>
   fst (save_df \<lparr> nrows = 1, columns = [(''time'', TimeCol (Some ''UTC'') [Some 0])] \<rparr>
          [''data'', ''a.txt'']) = Inl (ValueError (ExtensionNoSoportada ''.txt'')) \<and>
   filter is_write
     (snd (save_df \<lparr> nrows = 1, columns = [(''time'', TimeCol (Some ''UTC'') [Some 0])] \<rparr>
             [''data'', ''a.txt''])) = []"
  using
    save_df_extension [of "[''data'', ''a.PARQUET'']"
      "\<lparr> nrows = 1, columns = [(''time'', TimeCol (Some ''UTC'') [Some 0])] \<rparr>"]
    save_df_extension [of "[''data'', ''a.Csv'']"
      "\<lparr> nrows = 1, columns = [(''time'', TimeCol (Some ''UTC'') [Some 0])] \<rparr>"]
    save_df_extension [of "[''data'', ''a.txt'']"
      "\<lparr> nrows = 1, columns = [(''time'', TimeCol (Some ''UTC'') [Some 0])] \<rparr>"]
  by (simp add: lower_suffix_examples parent_def) (simp add: suffix_def name_def)

section \<open>cli.py: the range of one day\<close>











lemma decimal_numeral:
  "decimal (numeral k) =
     (if (numeral k :: nat) < 10 then [digit (numeral k)]
      else decimal (numeral k div 10) @ [digit (numeral k mod 10)])"
  by (rule decimal.simps)

lemma decimal_small: "decimal 0 = [digit 0]" "decimal (Suc 0) = [digit 1]"
  by (subst decimal.simps, simp)+

lemmas date_eval =
  toordinal_def days_before_year_def days_before_month_def days_in_month_def
  DAYS_BEFORE_MONTH_def DAYS_IN_MONTH_def is_leap_def fromordinal_def MAXORDINAL_def
  valid_date_def

lemmas format_eval =
  strftime_ymd_def zero_padded_def decimal_numeral decimal_small digit_def char_of_def
  bit_Suc_0_iff









section \<open>validate.py: the checks\<close>

lemma bool_sum_duplicated_from:
  "(bool_sum (duplicated_from seen xs) = 0) = (distinct xs \<and> set xs \<inter> set seen = {})"
  by (induction xs arbitrary: seen) (auto simp: bool_sum_def)

lemma those_map_Some: "those (map Some vs) = Some vs"
  by (induction vs) simp_all

lemma those_SomeD: "those xs = Some vs \<Longrightarrow> xs = map Some vs"
  by (induction xs arbitrary: vs) (auto split: option.splits)

lemma those_eq_Some: "(those xs = Some vs) = (xs = map Some vs)"
  using those_SomeD those_map_Some by blast

lemma those_eq_None: "(those xs = None) = (None \<in> set xs)"
  by (induction xs) (auto split: option.splits)

lemma monotonic_increasing_ascending: "monotonic_increasing xs = ascending xs"
proof (induction xs rule: monotonic_increasing.induct)
  case 1
  then show ?case by (simp add: ascending_def)
next
  case (2 x)
  then show ?case by (cases x) (simp_all add: ascending_def)
next
  case (3 x y r)
  show ?case
  proof (cases x)
    case None
    then show ?thesis by (simp add: ascending_def)
  next
    case (Some a)
    show ?thesis
    proof (cases y)
      case None
      with Some show ?thesis by (simp add: ascending_def)
    next
      case (Some b)
      with \<open>x = Some a\<close> "3.IH" show ?thesis
        by (auto simp: ascending_def split: option.splits)
    qed
  qed
qed

lemma strictly_ascending_iff:
  "strictly_ascending xs = (ascending xs \<and> distinct xs)"
proof (cases "those xs")
  case None
  then show ?thesis by (simp add: strictly_ascending_def ascending_def)
next
  case (Some vs)
  then have "xs = map Some vs" by (simp add: those_eq_Some)
  then have "distinct xs = distinct vs" by (simp add: distinct_map)
  with Some show ?thesis
    by (auto simp: strictly_ascending_def ascending_def strict_sorted_iff)
qed

lemma py_any_isna: "py_any (isna col) = has_missing col"
  by (cases col) (auto simp: py_any_def)


lemma no_duplicated: "(bool_sum (duplicated col) = 0) = (\<not> has_duplicate col)"
  by (cases col) (simp_all add: bool_sum_duplicated_from)

lemma some_duplicated: "(0 < bool_sum (duplicated col)) = has_duplicate col"
  using no_duplicated [of col] by auto

lemma is_monotonic_increasing_iff: "is_monotonic_increasing col = in_ascending_order col"
  by (cases col) (simp_all add: monotonic_increasing_ascending)

lemma in_strictly_ascending_order_iff:
  "in_strictly_ascending_order col = (in_ascending_order col \<and> \<not> has_duplicate col)"
  by (cases col) (simp_all add: strictly_ascending_iff)

lemma getitem_present: "(getitem df c \<noteq> None) = (c \<in> fst ` set (columns df))"
  by (simp add: getitem_def map_of_eq_None_iff)


lemma validate_tohlcv_cases:
  "validate_tohlcv df =
     (if \<exists>c\<in>set REQUIRED_COLS. c \<notin> fst ` set (columns df)
      then Inl (ValueError (FaltanColumnas
             (filter (\<lambda>c. c \<notin> set (map fst (columns df))) REQUIRED_COLS)))
      else if df_empty df then Inl (ValueError DataFrameVacio)
      else if column_holds df ''time'' has_missing then Inl (ValueError NaNsEnTime)
      else if column_holds df ''time'' has_duplicate
        then Inl (ValueError (TimestampsDuplicados
               (case getitem df ''time'' of None \<Rightarrow> 0 | Some t \<Rightarrow> bool_sum (duplicated t))))
      else if column_holds df ''time'' (\<lambda>t. \<not> in_ascending_order t)
        then Inl (ValueError TimeNoOrdenado)
      else check_ohlc df [''open'', ''high'', ''low'', ''close''])"
proof (cases "\<exists>c\<in>set REQUIRED_COLS. c \<notin> fst ` set (columns df)")
  case True
  then have "filter (\<lambda>c. c \<notin> set (map fst (columns df))) REQUIRED_COLS \<noteq> []"
    by (auto simp: filter_empty_conv)
  with True show ?thesis by (simp add: validate_tohlcv_def Let_def)
next
  case False
  then have empty: "filter (\<lambda>c. c \<notin> set (map fst (columns df))) REQUIRED_COLS = []"
    by (auto simp: filter_empty_conv)
  from False have "''time'' \<in> fst ` set (columns df)" by (simp add: REQUIRED_COLS_def)
  then obtain t where t: "getitem df ''time'' = Some t"
    using getitem_present [of df "''time''"] by auto
  show ?thesis
    using False empty t
    by (simp add: validate_tohlcv_def Let_def column_holds_def py_any_isna no_duplicated some_duplicated
        is_monotonic_increasing_iff)
qed


lemma example_validates:
  "validate_tohlcv example_frame = Inr ()"
  "validate_tohlcv example_frame_duplicate = Inl (ValueError (TimestampsDuplicados 1))"
  by (simp_all add: validate_tohlcv_def example_frame_def example_frame_duplicate_def
      REQUIRED_COLS_def df_empty_def getitem_def py_any_def py_all_def bool_sum_def Let_def)


text \<open>
  C3. On every frame on which \<open>validate_tohlcv\<close> returns without raising, the time
  column has no missing value and each of its timestamps is strictly greater than
  the one before it.
\<close>

theorem validate_tohlcv_strictly_ascending:
  "validate_tohlcv df = Inr () \<longrightarrow> column_holds df ''time'' in_strictly_ascending_order"
proof
  assume ok: "validate_tohlcv df = Inr ()"
  then have req: "\<not> (\<exists>c\<in>set REQUIRED_COLS. c \<notin> fst ` set (columns df))"
    by (auto simp: validate_tohlcv_cases split: if_splits)
  then have "''time'' \<in> fst ` set (columns df)" by (simp add: REQUIRED_COLS_def)
  then obtain t where t: "getitem df ''time'' = Some t"
    using getitem_present [of df "''time''"] by auto
  from ok req have "\<not> column_holds df ''time'' has_duplicate"
    and "\<not> column_holds df ''time'' (\<lambda>t. \<not> in_ascending_order t)"
    by (auto simp: validate_tohlcv_cases split: if_splits)
  with t show "column_holds df ''time'' in_strictly_ascending_order"
    by (simp add: column_holds_def in_strictly_ascending_order_iff)
qed

theorem validate_tohlcv_strictly_ascending_witness:
  "validate_tohlcv example_frame = Inr () \<and>
   column_holds example_frame ''time'' in_strictly_ascending_order \<and>
   getitem example_frame ''time'' =
     Some (TimeCol (Some ''UTC'') [Some 1704067200000000000, Some 1704153600000000000])"
  using validate_tohlcv_strictly_ascending [of example_frame]
  by (simp add: example_validates) (simp add: example_frame_def getitem_def)

section \<open>yahoo.py: errors and normalization\<close>




lemma fetch_tohlcv_yahoo_ok:
  assumes "strip ticker \<noteq> []"
    and "dl (fetch_request (strip ticker) interval start end' period aa pp tmo) = Some df"
    and "\<not> raw_empty df"
  shows "fetch_tohlcv_yahoo dl ticker interval start end' period aa pp tmo =
           (normalize_response (strip ticker) df,
            [Download (fetch_request (strip ticker) interval start end' period aa pp tmo)])"
  using assms by (simp add: fetch_tohlcv_yahoo_def Let_def)

text \<open>
  C8. When the ticker is empty or white space only, \<open>fetch_tohlcv_yahoo\<close> raises
  ValueError and has made no request. When the ticker is not blank and the provider
  returns nothing or an empty frame, it raises RuntimeError: the request is all that has
  happened, and no frame is built.
\<close>

theorem fetch_tohlcv_yahoo_errors:
  "(strip ticker = [] \<longrightarrow>
      fetch_tohlcv_yahoo dl ticker interval start end' period aa pp tmo =
        (Inl (ValueError TickerVacio), [])) \<and>
   (strip ticker \<noteq> [] \<and>
    (case dl (fetch_request (strip ticker) interval start end' period aa pp tmo) of
       None \<Rightarrow> True | Some df \<Rightarrow> raw_empty df) \<longrightarrow>
      fetch_tohlcv_yahoo dl ticker interval start end' period aa pp tmo =
        (Inl (RuntimeError (YahooSinDatos (strip ticker) interval)),
         [Download (fetch_request (strip ticker) interval start end' period aa pp tmo)]))"
  by (auto simp: fetch_tohlcv_yahoo_def Let_def split: option.splits)

theorem fetch_tohlcv_yahoo_errors_witness:
  "fetch_tohlcv_yahoo (\<lambda>r. Some example_multi) '' '' ''1h'' None None None False False 30 =
     (Inl (ValueError TickerVacio), []) \<and>
   fst (fetch_tohlcv_yahoo (\<lambda>r. None) ''AAPL'' ''1h'' None None None False False 30) =
     Inl (RuntimeError (YahooSinDatos ''AAPL'' ''1h'')) \<and>
   fst (fetch_tohlcv_yahoo (\<lambda>r. Some example_none) '' AAPL'' ''1h'' None None None False False 30) =
     Inl (RuntimeError (YahooSinDatos ''AAPL'' ''1h''))"
  using
    fetch_tohlcv_yahoo_errors [of "'' ''" "\<lambda>r. Some example_multi" "''1h''" None None None False False 30]
    fetch_tohlcv_yahoo_errors [of "''AAPL''" "\<lambda>r. None" "''1h''" None None None False False 30]
    fetch_tohlcv_yahoo_errors [of "'' AAPL''" "\<lambda>r. Some example_none" "''1h''" None None None False False 30]
  by (simp add: strip_def strip_pred_def is_space_def example_none_def raw_empty_def)

text \<open>
  C5, amended. For a response that is not empty and whose columns are pairs (field,
  ticker), the result is the one for the plain columns of the requested ticker (white
  space stripped) when that ticker occurs in the last level of the labels, and otherwise
  the one for the plain columns of the first ticker of the labels.
\<close>

theorem fetch_tohlcv_yahoo_multiindex:
  "strip ticker \<noteq> [] \<and>
   dl (fetch_request (strip ticker) interval start end' period aa pp tmo) = Some df \<and>
   \<not> raw_empty df \<and> rf_columns df = MultiIndex cs \<longrightarrow>
     (strip ticker \<in> set (level_last cs) \<longrightarrow>
        fst (fetch_tohlcv_yahoo dl ticker interval start end' period aa pp tmo) =
          normalize_response (strip ticker) (df\<lparr>rf_columns := Index (xs_last (strip ticker) cs)\<rparr>)) \<and>
     (strip ticker \<notin> set (level_last cs) \<longrightarrow>
        (\<exists>first rest. level_last cs = first # rest \<and>
           fst (fetch_tohlcv_yahoo dl ticker interval start end' period aa pp tmo) =
             normalize_response (strip ticker) (df\<lparr>rf_columns := Index (xs_last first cs)\<rparr>)))"
proof (intro impI, elim conjE)
  assume a: "strip ticker \<noteq> []"
    "dl (fetch_request (strip ticker) interval start end' period aa pp tmo) = Some df"
    "\<not> raw_empty df" "rf_columns df = MultiIndex cs"
  then have ne: "cs \<noteq> []" by (auto simp: raw_empty_def)
  then obtain first rest where fr: "level_last cs = first # rest"
    by (cases cs) (auto simp: level_last_def)
  have f: "fst (fetch_tohlcv_yahoo dl ticker interval start end' period aa pp tmo) =
             normalize_response (strip ticker) df"
    using a by (simp add: fetch_tohlcv_yahoo_ok)
  show "(strip ticker \<in> set (level_last cs) \<longrightarrow>
        fst (fetch_tohlcv_yahoo dl ticker interval start end' period aa pp tmo) =
          normalize_response (strip ticker) (df\<lparr>rf_columns := Index (xs_last (strip ticker) cs)\<rparr>)) \<and>
     (strip ticker \<notin> set (level_last cs) \<longrightarrow>
        (\<exists>first rest. level_last cs = first # rest \<and>
           fst (fetch_tohlcv_yahoo dl ticker interval start end' period aa pp tmo) =
             normalize_response (strip ticker) (df\<lparr>rf_columns := Index (xs_last first cs)\<rparr>)))"
    using a(4) fr by (auto simp: f normalize_response_def select_ticker_def)
qed

lemmas frame_eval =
  normalize_response_def select_ticker_def level_last_def xs_last_def to_utc_def
  rename_column_def build_frame_def df_get_def sorted_by_def sort_rows_def Let_def

lemma strip_examples: "strip '' AAPL'' = ''AAPL''" "strip ''AAPL'' = ''AAPL''" "strip '' '' = []"
  by (simp_all add: strip_def strip_pred_def is_space_def)

lemma normalize_examples:
  "normalize_response ''AAPL'' example_multi =
     Inr \<lparr> nrows = 2,
           columns =
             [(''time'', TimeCol (Some ''UTC'') [Some 1704067200000000000, Some 1704153600000000000]),
              (''open'', NumCol [Some 187, Some 182]),
              (''high'', NumCol [None, None]),
              (''low'', NumCol [None, None]),
              (''close'', NumCol [Some 185, Some 184]),
              (''volume'', NumCol [None, None])] \<rparr>"
  "normalize_response ''AAPL'' example_other =
     Inr \<lparr> nrows = 1,
           columns =
             [(''time'', TimeCol (Some ''UTC'') [Some 1704067200000000000]),
              (''open'', NumCol [None]),
              (''high'', NumCol [None]),
              (''low'', NumCol [None]),
              (''close'', NumCol [Some 376]),
              (''volume'', NumCol [None])] \<rparr>"
  by (simp_all add: example_multi_def example_other_def frame_eval)

lemma not_raw_empty_examples: "\<not> raw_empty example_multi" "\<not> raw_empty example_other"
  by (simp_all add: raw_empty_def example_multi_def example_other_def)

theorem fetch_tohlcv_yahoo_multiindex_witness:
  "fst (fetch_tohlcv_yahoo (\<lambda>r. Some example_multi) '' AAPL'' ''1d'' None None None False False 30) =
     Inr \<lparr> nrows = 2,
           columns =
             [(''time'', TimeCol (Some ''UTC'') [Some 1704067200000000000, Some 1704153600000000000]),
              (''open'', NumCol [Some 187, Some 182]),
              (''high'', NumCol [None, None]),
              (''low'', NumCol [None, None]),
              (''close'', NumCol [Some 185, Some 184]),
              (''volume'', NumCol [None, None])] \<rparr> \<and>
   fst (fetch_tohlcv_yahoo (\<lambda>r. Some example_other) ''AAPL'' ''1d'' None None None False False 30) =
     normalize_response ''AAPL''
       (example_other\<lparr>rf_columns := Index [(''Close'', [Some 376])]\<rparr>)"
proof -
  let ?cs = "[((''Close'', ''MSFT''), [Some (371 :: real), Some 376]),
              ((''Open'', ''MSFT''), [Some 370, Some 374]),
              ((''Close'', ''AAPL''), [Some 184, Some 185]),
              ((''Open'', ''AAPL''), [Some 182, Some 187])]"
  let ?cs' = "[((''Close'', ''MSFT''), [Some (376 :: real)])]"
  have h: "strip '' AAPL'' \<noteq> [] \<and>
      (\<lambda>r. Some example_multi)
        (fetch_request (strip '' AAPL'') ''1d'' None None None False False 30) = Some example_multi \<and>
      \<not> raw_empty example_multi \<and> rf_columns example_multi = MultiIndex ?cs"
    by (simp add: strip_examples not_raw_empty_examples) (simp add: example_multi_def)
  have m: "strip '' AAPL'' \<in> set (level_last ?cs)"
    by (simp add: strip_examples level_last_def)
  have 1: "fst (fetch_tohlcv_yahoo (\<lambda>r. Some example_multi) '' AAPL'' ''1d'' None None None
               False False 30) =
           normalize_response (strip '' AAPL'')
             (example_multi\<lparr>rf_columns := Index (xs_last (strip '' AAPL'') ?cs)\<rparr>)"
    by (rule mp [OF conjunct1 [OF mp [OF fetch_tohlcv_yahoo_multiindex h]] m])
  have h': "strip ''AAPL'' \<noteq> [] \<and>
      (\<lambda>r. Some example_other)
        (fetch_request (strip ''AAPL'') ''1d'' None None None False False 30) = Some example_other \<and>
      \<not> raw_empty example_other \<and> rf_columns example_other = MultiIndex ?cs'"
    by (simp add: strip_examples not_raw_empty_examples) (simp add: example_other_def)
  have m': "strip ''AAPL'' \<notin> set (level_last ?cs')"
    by (simp add: strip_examples level_last_def)
  have "\<exists>first rest. level_last ?cs' = first # rest \<and>
          fst (fetch_tohlcv_yahoo (\<lambda>r. Some example_other) ''AAPL'' ''1d'' None None None
                 False False 30) =
            normalize_response (strip ''AAPL'')
              (example_other\<lparr>rf_columns := Index (xs_last first ?cs')\<rparr>)"
    by (rule mp [OF conjunct2 [OF mp [OF fetch_tohlcv_yahoo_multiindex h']] m'])
  then obtain first rest where fr: "level_last ?cs' = first # rest"
    and 2: "fst (fetch_tohlcv_yahoo (\<lambda>r. Some example_other) ''AAPL'' ''1d'' None None None
                   False False 30) =
              normalize_response (strip ''AAPL'')
                (example_other\<lparr>rf_columns := Index (xs_last first ?cs')\<rparr>)"
    by (elim exE conjE)
  from fr have first: "first = ''MSFT''" by (simp add: level_last_def)
  have 3: "normalize_response ''AAPL''
             (example_multi\<lparr>rf_columns := Index (xs_last ''AAPL'' ?cs)\<rparr>) =
           Inr \<lparr> nrows = 2,
             columns =
               [(''time'', TimeCol (Some ''UTC'') [Some 1704067200000000000, Some 1704153600000000000]),
                (''open'', NumCol [Some 187, Some 182]),
                (''high'', NumCol [None, None]),
                (''low'', NumCol [None, None]),
                (''close'', NumCol [Some 185, Some 184]),
                (''volume'', NumCol [None, None])] \<rparr>"
    by (simp add: example_multi_def frame_eval)
  have 4: "xs_last ''MSFT'' ?cs' = [(''Close'', [Some 376])]"
    by (simp add: xs_last_def)
  show ?thesis
    by (simp only: 1 2 first strip_examples 3 4 simp_thms)
qed

text \<open>
  The claim as first stated fails when the requested ticker is not among the labels: the
  frame returned holds the columns of another ticker, not those of the requested one.
\<close>

theorem fetch_tohlcv_yahoo_multiindex_counterexample:
  "''AAPL'' \<notin> set (level_last [((''Close'', ''MSFT''), [Some (376 :: real)])]) \<and>
   rf_columns example_other = MultiIndex [((''Close'', ''MSFT''), [Some 376])] \<and>
   fst (fetch_tohlcv_yahoo (\<lambda>r. Some example_other) ''AAPL'' ''1d'' None None None False False 30) =
     Inr \<lparr> nrows = 1,
           columns =
             [(''time'', TimeCol (Some ''UTC'') [Some 1704067200000000000]),
              (''open'', NumCol [None]),
              (''high'', NumCol [None]),
              (''low'', NumCol [None]),
              (''close'', NumCol [Some 376]),
              (''volume'', NumCol [None])] \<rparr> \<and>
   fst (fetch_tohlcv_yahoo (\<lambda>r. Some example_other) ''AAPL'' ''1d'' None None None False False 30) \<noteq>
     normalize_response ''AAPL''
       (example_other\<lparr>rf_columns :=
          Index (xs_last ''AAPL'' [((''Close'', ''MSFT''), [Some 376])])\<rparr>)"
  by (simp add: fetch_tohlcv_yahoo_ok strip_examples not_raw_empty_examples normalize_examples)
     (simp add: example_other_def frame_eval)






section \<open>cli.py: the path of the file\<close>

lemma written_paths_append [simp]:
  "written_paths (xs @ ys) = written_paths xs @ written_paths ys"
  by (simp add: written_paths_def)

lemma written_paths_Nil [simp]: "written_paths [] = []"
  by (simp add: written_paths_def)

lemma written_paths_fetch:
  "written_paths (snd (fetch_tohlcv_yahoo dl ticker interval start end' period aa pp tmo)) = []"
  by (simp add: fetch_tohlcv_yahoo_def written_paths_def Let_def split: option.splits)

lemma written_paths_build_outpath_fixed:
  "written_paths (snd (build_outpath_fixed data_root ticker interval start_tag end_tag ext)) = []"
  by (simp add: build_outpath_fixed_def written_paths_def Let_def)

lemma written_paths_save_df: "set (written_paths (snd (save_df df p))) \<subseteq> {p}"
  by (simp add: save_df_def written_paths_def)

lemma tags_given:
  "s \<noteq> [] \<Longrightarrow> e \<noteq> [] \<Longrightarrow> tags (Some s) (Some e) df = Inr (s, e)"
  by (simp add: tags_def)

lemma written_paths_save:
  "set (written_paths (snd (save e a p start end' df))) \<subseteq>
     (case tags start end' df of
        Inl x \<Rightarrow> {}
      | Inr (start_tag, end_tag) \<Rightarrow>
          {case arg_out a of
             Some out \<Rightarrow>
               if out \<noteq> [] then resolve e out
               else fst (build_outpath_fixed FIXED_DATA_ROOT (p_ticker p) (p_interval p)
                      start_tag end_tag (if p_format p = ''parquet'' then ''.parquet'' else ''.csv''))
           | None \<Rightarrow>
               fst (build_outpath_fixed FIXED_DATA_ROOT (p_ticker p) (p_interval p)
                      start_tag end_tag (if p_format p = ''parquet'' then ''.parquet'' else ''.csv''))})"
proof (cases "tags start end' df")
  case (Inl x)
  then show ?thesis by (simp add: save_def)
next
  case (Inr t)
  obtain start_tag end_tag where t: "t = (start_tag, end_tag)" by (cases t)
  let ?ext = "if p_format p = ''parquet'' then ''.parquet'' else ''.csv''"
  let ?b = "build_outpath_fixed FIXED_DATA_ROOT (p_ticker p) (p_interval p) start_tag end_tag ?ext"
  show ?thesis
  proof (cases "truthy (arg_out a)")
    case True
    then obtain out where out: "arg_out a = Some out" "out \<noteq> []"
      by (auto simp: truthy_def split: option.splits)
    show ?thesis
      using written_paths_save_df [of df "resolve e out"]
      by (cases "save_df df (resolve e out)")
         (auto simp: save_def Inr t out Let_def split: sum.splits)
  next
    case False
    then have out: "arg_out a = None \<or> arg_out a = Some []"
      by (auto simp: truthy_def split: option.splits)
    have "set (written_paths (snd (save e a p start end' df))) \<subseteq> {fst ?b}"
      using written_paths_save_df [of df "fst ?b"] written_paths_build_outpath_fixed
        [of FIXED_DATA_ROOT "p_ticker p" "p_interval p" start_tag end_tag ?ext] out
      by (cases ?b; cases "save_df df (fst ?b)")
         (auto simp: save_def Inr t Let_def split: sum.splits)
    with out show ?thesis by (auto simp: Inr t)
  qed
qed

lemma written_paths_main:
  assumes "x \<in> set (written_paths (snd (main e a)))"
  shows "\<exists>start end' warn df.
           fix_same_day_range (isoparse_date e) (p_start (request_params e a))
             (p_end (request_params e a)) = Inr (start, end', warn) \<and>
           x \<in> set (written_paths (snd (save e a (request_params e a) start end' df)))"
proof (cases "fix_same_day_range (isoparse_date e) (p_start (request_params e a))
             (p_end (request_params e a))")
  case (Inl y)
  with assms show ?thesis by (simp add: main_def Let_def)
next
  case (Inr t)
  obtain start end' warn where t: "t = (start, end', warn)" by (cases t)
  let ?p = "request_params e a"
  let ?f = "fetch_tohlcv_yahoo (yf_download e) (p_ticker ?p) (p_interval ?p)
              start end' (p_period ?p) (arg_auto_adjust a) (arg_prepost a) 30"
  obtain r ev1 where f: "?f = (r, ev1)" by (cases ?f)
  have ev1: "written_paths ev1 = []" using written_paths_fetch [of "yf_download e"
    "p_ticker ?p" "p_interval ?p" start end' "p_period ?p" "arg_auto_adjust a" "arg_prepost a" 30]
    by (simp add: f)
  show ?thesis
  proof (cases r)
    case (Inl y)
    with assms ev1 show ?thesis by (simp add: main_def Inr t f Let_def)
  next
    case df: (Inr df)
    show ?thesis
    proof (cases "validate_tohlcv df = Inr () \<and> \<not> p_no_save ?p")
      case True
      obtain r2 ev2 where s: "save e a ?p start end' df = (r2, ev2)"
        by (cases "save e a ?p start end' df")
      from assms have "x \<in> set (written_paths ev2)"
        using True by (simp add: main_def Inr t f df s ev1 Let_def)
      then have "x \<in> set (written_paths (snd (save e a ?p start end' df)))" by (simp add: s)
      then show ?thesis using Inr t by blast
    next
      case False
      with assms ev1 show ?thesis
        by (cases "validate_tohlcv df") (auto simp: main_def Inr t f df Let_def)
    qed
  qed
qed

lemma request_params_download [simp]:
  "request_params (e\<lparr>yf_download := dl\<rparr>) a = request_params e a"
  by (simp add: request_params_def)

lemma written_paths_main_given:
  assumes fx: "fix_same_day_range (isoparse_date e) (p_start (request_params e a))
             (p_end (request_params e a)) = Inr (Some s, Some t, w)"
    and x: "x \<in> set (written_paths (snd (main (e\<lparr>yf_download := dl\<rparr>) a)))"
  shows "\<exists>df. x \<in> set (written_paths
           (snd (save (e\<lparr>yf_download := dl\<rparr>) a (request_params e a) (Some s) (Some t) df)))"
  using written_paths_main [OF x] fx by auto

text \<open>
  C7, amended. When start and end are both given (after the adjustment of a range of one
  day) and no explicit output path is given, every file a run writes is at the path built
  from the ticker, the interval, the start, the end and the format of the request: two
  runs of \<open>main\<close> with the same request, whatever the provider returns, write to no
  other path. When an explicit output path is given, every file is written at that path,
  resolved. Otherwise the path is not promised to be a function of the request.
\<close>

theorem main_outpath_deterministic:
  "(p = request_params e a \<and>
    fix_same_day_range (isoparse_date e) (p_start p) (p_end p) = Inr (Some s, Some t, w) \<and>
    s \<noteq> [] \<and> t \<noteq> [] \<and> \<not> truthy (arg_out a) \<longrightarrow>
      set (written_paths (snd (main (e\<lparr>yf_download := dl\<rparr>) a))) \<union>
      set (written_paths (snd (main (e\<lparr>yf_download := dl'\<rparr>) a))) \<subseteq>
        {fst (build_outpath_fixed FIXED_DATA_ROOT (p_ticker p) (p_interval p) s t
                (if p_format p = ''parquet'' then ''.parquet'' else ''.csv''))}) \<and>
   (arg_out a = Some out \<and> out \<noteq> [] \<longrightarrow>
      set (written_paths (snd (main (e\<lparr>yf_download := dl\<rparr>) a))) \<union>
      set (written_paths (snd (main (e\<lparr>yf_download := dl'\<rparr>) a))) \<subseteq> {resolve e out})"
proof (intro conjI impI)
  assume a: "p = request_params e a \<and>
    fix_same_day_range (isoparse_date e) (p_start p) (p_end p) = Inr (Some s, Some t, w) \<and>
    s \<noteq> [] \<and> t \<noteq> [] \<and> \<not> truthy (arg_out a)"
  let ?P = "fst (build_outpath_fixed FIXED_DATA_ROOT (p_ticker p) (p_interval p) s t
                (if p_format p = ''parquet'' then ''.parquet'' else ''.csv''))"
  have out: "arg_out a = None \<or> arg_out a = Some []"
    using a by (auto simp: truthy_def split: option.splits)
  have fx: "fix_same_day_range (isoparse_date e) (p_start (request_params e a))
             (p_end (request_params e a)) = Inr (Some s, Some t, w)"
    using a by (elim conjE) (erule subst)
  have one: "x = ?P"
    if xin: "x \<in> set (written_paths (snd (main (e\<lparr>yf_download := dl\<rparr>) a)))" for x dl
  proof -
    obtain df where "x \<in> set (written_paths
           (snd (save (e\<lparr>yf_download := dl\<rparr>) a (request_params e a) (Some s) (Some t) df)))"
      using written_paths_main_given [OF fx xin] by blast
    then show ?thesis
      using written_paths_save [of "e\<lparr>yf_download := dl\<rparr>" a "request_params e a" "Some s" "Some t" df]
        a out by (auto simp: tags_given)
  qed
  show "set (written_paths (snd (main (e\<lparr>yf_download := dl\<rparr>) a))) \<union>
      set (written_paths (snd (main (e\<lparr>yf_download := dl'\<rparr>) a))) \<subseteq> {?P}"
    using one by blast
next
  assume a: "arg_out a = Some out \<and> out \<noteq> []"
  have one: "x = resolve e out"
    if xin: "x \<in> set (written_paths (snd (main (e\<lparr>yf_download := dl\<rparr>) a)))" for x dl
  proof -
    obtain start end' df where "x \<in> set (written_paths
           (snd (save (e\<lparr>yf_download := dl\<rparr>) a (request_params e a) start end' df)))"
      using written_paths_main [OF xin] by auto
    then show ?thesis
      using written_paths_save [of "e\<lparr>yf_download := dl\<rparr>" a "request_params e a" start end' df]
        a by (cases "tags start end' df") auto
  qed
  show "set (written_paths (snd (main (e\<lparr>yf_download := dl\<rparr>) a))) \<union>
      set (written_paths (snd (main (e\<lparr>yf_download := dl'\<rparr>) a))) \<subseteq> {resolve e out}"
    using one by blast
qed

lemma example_normalize:
  "normalize_response ''AAPL'' example_response = Inr example_out"
  "normalize_response ''AAPL'' example_response_later = Inr example_out_later"
  by (simp_all add: example_response_def example_response_later_def example_out_def
      example_out_later_def frame_eval)

lemma example_raw_not_empty:
  "\<not> raw_empty example_response" "\<not> raw_empty example_response_later"
  by (simp_all add: raw_empty_def example_response_def example_response_later_def)

lemma example_fetch:
  "fst (fetch_tohlcv_yahoo (\<lambda>r. Some example_response) ''AAPL'' ''1d'' start end' period
          False False 30) = Inr example_out"
  "fst (fetch_tohlcv_yahoo (\<lambda>r. Some example_response_later) ''AAPL'' ''1d'' start end' period
          False False 30) = Inr example_out_later"
  by (simp_all add: fetch_tohlcv_yahoo_ok strip_examples example_raw_not_empty example_normalize)

lemma example_out_valid:
  "validate_tohlcv example_out = Inr ()" "validate_tohlcv example_out_later = Inr ()"
  by (simp_all add: validate_tohlcv_def example_out_def example_out_later_def
      REQUIRED_COLS_def df_empty_def getitem_def py_any_def py_all_def bool_sum_def Let_def)

lemma example_dates:
  "date_of_timestamp 1704067200000000000 = \<lparr> year = 2024, month = 1, day = 1 \<rparr>"
  "date_of_timestamp 1704153600000000000 = \<lparr> year = 2024, month = 1, day = 2 \<rparr>"
  "date_of_timestamp 1704240000000000000 = \<lparr> year = 2024, month = 1, day = 3 \<rparr>"
  by (simp_all add: date_of_timestamp_def date_eval Let_def)

lemma example_strftime:
  "strftime_ymd \<lparr> year = 2024, month = 1, day = 1 \<rparr> = ''2024-01-01''"
  "strftime_ymd \<lparr> year = 2024, month = 1, day = 2 \<rparr> = ''2024-01-02''"
  "strftime_ymd \<lparr> year = 2024, month = 1, day = 3 \<rparr> = ''2024-01-03''"
  by (simp_all add: format_eval)

lemma example_tags:
  "tags None None example_out = Inr (''2024-01-01'', ''2024-01-02'')"
  "tags None None example_out_later = Inr (''2024-01-02'', ''2024-01-03'')"
  by (simp_all add: tags_def first_last_dates_def getitem_def example_out_def
      example_out_later_def example_dates example_strftime)

lemma example_sanitize:
  "sanitize_token ''AAPL'' = ''AAPL''" "sanitize_token ''1d'' = ''1d''"
  "sanitize_token ''2024-01-01'' = ''2024_01_01''"
  "sanitize_token ''2024-01-02'' = ''2024_01_02''"
  "sanitize_token ''2024-01-03'' = ''2024_01_03''"
  by (simp_all add: sanitize_token_def string_eval)

lemma example_blank:
  "\<not> is_blank (Some ''AAPL'')" "is_blank None" "\<not> is_blank (Some ''2024-01-02'')"
  by (simp_all add: is_blank_def strip_def strip_pred_def is_space_def)

lemma example_params:
  "request_params (example_env dl) example_args =
     \<lparr> p_ticker = ''AAPL'', p_interval = ''1d'', p_start = None, p_end = None,
       p_period = None, p_format = ''parquet'', p_no_save = False \<rparr>"
  "request_params (example_env dl) example_args_day =
     \<lparr> p_ticker = ''AAPL'', p_interval = ''1d'', p_start = Some ''2024-01-02'',
       p_end = Some ''2024-01-02'', p_period = None, p_format = ''parquet'', p_no_save = False \<rparr>"
  by (simp_all add: request_params_def example_args_def example_args_day_def example_blank Let_def)

lemma example_fix:
  "fix_same_day_range iso_ymd None None = Inr (None, None, None)"
  "fix_same_day_range iso_ymd (Some ''2024-01-02'') (Some ''2024-01-02'') =
     Inr (Some ''2024-01-02'', Some ''2024-01-03'', Some (SameDayRange ''2024-01-02'' ''2024-01-03''))"
  by (simp_all add: fix_same_day_range_def truthy_def parse_date_yyyy_mm_dd_def iso_ymd_def
      is_digit_def number_def add_one_day_def date_eval Let_def format_eval)

lemma example_fetch_full:
  "fetch_tohlcv_yahoo (\<lambda>r. Some example_response) ''AAPL'' ''1d'' start end' period False False 30 =
     (Inr example_out, [Download (fetch_request ''AAPL'' ''1d'' start end' period False False 30)])"
  "fetch_tohlcv_yahoo (\<lambda>r. Some example_response_later) ''AAPL'' ''1d'' start end' period False False 30 =
     (Inr example_out_later, [Download (fetch_request ''AAPL'' ''1d'' start end' period False False 30)])"
  by (simp_all add: fetch_tohlcv_yahoo_ok strip_examples example_raw_not_empty example_normalize)

lemma example_suffix:
  "lower (suffix (FIXED_DATA_ROOT @ [''AAPL'', ''tohlcv'', ''1d'', ''2024_01_01_2024_01_02.parquet''])) = ''.parquet''"
  "lower (suffix (FIXED_DATA_ROOT @ [''AAPL'', ''tohlcv'', ''1d'', ''2024_01_02_2024_01_03.parquet''])) = ''.parquet''"
  by (simp_all add: suffix_def name_def lower_def lower_char_def)

lemma example_save:
  "written_paths (snd (save (example_env dl) example_args
      \<lparr> p_ticker = ''AAPL'', p_interval = ''1d'', p_start = None, p_end = None,
        p_period = None, p_format = ''parquet'', p_no_save = False \<rparr> None None example_out)) =
     [FIXED_DATA_ROOT @ [''AAPL'', ''tohlcv'', ''1d'', ''2024_01_01_2024_01_02.parquet'']]"
  "written_paths (snd (save (example_env dl) example_args
      \<lparr> p_ticker = ''AAPL'', p_interval = ''1d'', p_start = None, p_end = None,
        p_period = None, p_format = ''parquet'', p_no_save = False \<rparr> None None example_out_later)) =
     [FIXED_DATA_ROOT @ [''AAPL'', ''tohlcv'', ''1d'', ''2024_01_02_2024_01_03.parquet'']]"
  by (simp_all add: save_def example_tags example_args_def build_outpath_fixed_def path_div_def
      example_sanitize save_df_def example_suffix written_paths_def Let_def)

lemma example_env_fields:
  "isoparse_date (example_env dl) = iso_ymd" "yf_download (example_env dl) = dl"
  "resolve (example_env dl) = (\<lambda>out. [out])"
  "(example_env dl)\<lparr>yf_download := dl'\<rparr> = example_env dl'"
  by (simp_all add: example_env_def)

lemma example_args_fields:
  "arg_auto_adjust example_args = False" "arg_prepost example_args = False"
  "arg_out example_args = None"
  "arg_auto_adjust example_args_day = False" "arg_prepost example_args_day = False"
  "arg_out example_args_day = None"
  "arg_out example_args_out = Some ''aapl.csv''"
  by (simp_all add: example_args_def example_args_day_def example_args_out_def)

lemma written_paths_Download [simp]: "written_paths (Download r # evs) = written_paths evs"
  by (simp add: written_paths_def)

lemma example_main:
  "written_paths (snd (main (example_env (\<lambda>r. Some example_response)) example_args)) =
     [FIXED_DATA_ROOT @ [''AAPL'', ''tohlcv'', ''1d'', ''2024_01_01_2024_01_02.parquet'']]"
  "written_paths (snd (main (example_env (\<lambda>r. Some example_response_later)) example_args)) =
     [FIXED_DATA_ROOT @ [''AAPL'', ''tohlcv'', ''1d'', ''2024_01_02_2024_01_03.parquet'']]"
  by (simp_all add: main_def example_params example_fix example_fetch_full example_out_valid
      example_save example_env_fields example_args_fields Let_def split_beta)

lemma example_main_day:
  "written_paths (snd (main (example_env (\<lambda>r. Some example_response)) example_args_day)) =
     [FIXED_DATA_ROOT @ [''AAPL'', ''tohlcv'', ''1d'', ''2024_01_02_2024_01_03.parquet'']]"
  by (simp add: main_def example_params example_fix example_fetch_full example_out_valid
      example_env_fields example_args_fields Let_def split_beta save_def tags_def
      build_outpath_fixed_def path_div_def example_sanitize save_df_def example_suffix)
     (simp add: written_paths_def)

theorem main_outpath_deterministic_witness:
  "written_paths (snd (main (example_env (\<lambda>r. Some example_response)) example_args_day)) =
     [FIXED_DATA_ROOT @ [''AAPL'', ''tohlcv'', ''1d'', ''2024_01_02_2024_01_03.parquet'']] \<and>
   set (written_paths (snd (main (example_env (\<lambda>r. Some example_response)) example_args_day))) \<union>
   set (written_paths (snd (main (example_env (\<lambda>r. Some example_response_later)) example_args_day)))
     \<subseteq> {FIXED_DATA_ROOT @ [''AAPL'', ''tohlcv'', ''1d'', ''2024_01_02_2024_01_03.parquet'']} \<and>
   set (written_paths (snd (main (example_env (\<lambda>r. Some example_response)) example_args_out))) \<union>
   set (written_paths (snd (main (example_env (\<lambda>r. Some example_response_later)) example_args_out)))
     \<subseteq> {[''aapl.csv'']}"
proof -
  let ?e = "example_env (\<lambda>r. None)"
  let ?p = "request_params ?e example_args_day"
  have h: "?p = request_params ?e example_args_day \<and>
      fix_same_day_range (isoparse_date ?e) (p_start ?p) (p_end ?p) =
        Inr (Some ''2024-01-02'', Some ''2024-01-03'',
             Some (SameDayRange ''2024-01-02'' ''2024-01-03'')) \<and>
      ''2024-01-02'' \<noteq> [] \<and> ''2024-01-03'' \<noteq> [] \<and> \<not> truthy (arg_out example_args_day)"
    by (simp add: example_params example_env_fields example_fix example_args_fields truthy_def)
  have h': "arg_out example_args_out = Some ''aapl.csv'' \<and> ''aapl.csv'' \<noteq> []"
    by (simp add: example_args_fields)
  have path: "fst (build_outpath_fixed FIXED_DATA_ROOT (p_ticker ?p) (p_interval ?p)
                ''2024-01-02'' ''2024-01-03''
                (if p_format ?p = ''parquet'' then ''.parquet'' else ''.csv'')) =
              FIXED_DATA_ROOT @ [''AAPL'', ''tohlcv'', ''1d'', ''2024_01_02_2024_01_03.parquet'']"
    by (simp add: example_params build_outpath_fixed_def path_div_def example_sanitize Let_def)
  note 1 = mp [OF conjunct1 [OF main_outpath_deterministic
      [where e = ?e and a = example_args_day and dl = "\<lambda>r. Some example_response"
         and dl' = "\<lambda>r. Some example_response_later"]] h]
  note 2 = mp [OF conjunct2 [OF main_outpath_deterministic
      [where e = ?e and a = example_args_out and dl = "\<lambda>r. Some example_response"
         and dl' = "\<lambda>r. Some example_response_later"]] h']
  from 1 2 show ?thesis
    by (simp only: path example_env_fields example_main_day simp_thms)
qed

text \<open>
  The claim as first stated fails for a request by period (no start, no end): the tags
  of the file name are the dates of the first and the last row downloaded, so that two
  runs with the same request and different data write to different paths.
\<close>

theorem main_outpath_counterexample:
  "request_params (example_env (\<lambda>r. Some example_response)) example_args =
     request_params (example_env (\<lambda>r. Some example_response_later)) example_args \<and>
   written_paths (snd (main (example_env (\<lambda>r. Some example_response)) example_args)) =
     [FIXED_DATA_ROOT @ [''AAPL'', ''tohlcv'', ''1d'', ''2024_01_01_2024_01_02.parquet'']] \<and>
   written_paths (snd (main (example_env (\<lambda>r. Some example_response_later)) example_args)) =
     [FIXED_DATA_ROOT @ [''AAPL'', ''tohlcv'', ''1d'', ''2024_01_02_2024_01_03.parquet'']] \<and>
   written_paths (snd (main (example_env (\<lambda>r. Some example_response)) example_args)) \<noteq>
     written_paths (snd (main (example_env (\<lambda>r. Some example_response_later)) example_args))"
  by (simp add: example_main example_params)

end
